theory Spec2Isabelle
  imports Main "HOL-Library.Char_ord" "HOL-Library.List_Lexorder" "HOL-Library.Product_Lexorder"
    "HOL-Library.Word"
begin

section \<open>JavaScript values, strings and exceptions\<close>

text \<open>
  The service is a single script, \<^verbatim>\<open>src/server.js\<close>. JavaScript strings are modelled
  as \<^typ>\<open>string\<close>; the script only tests prefixes, drops prefixes, measures lengths and
  searches for the ASCII characters \<^verbatim>\<open>:\<close> and \<^verbatim>\<open>@\<close>, so one list element stands for
  one code unit. A thrown exception is the left summand of a sum type.
\<close>

datatype js_error =
    TypeError
  | RangeError
  | JsonWebTokenError
  | TokenExpiredError
  | NotBeforeError
  | DatabaseError string
  | SystemError string

text \<open>
  The values a decoded token payload can hold: what \<^verbatim>\<open>JSON.parse\<close> produces, and
  \<^verbatim>\<open>undefined\<close> for a property that is not there. A JavaScript number is an IEEE double;
  the type \<open>'n\<close> of numbers is left open, so that a payload can hold any of them,
  integral or not, of any magnitude.
\<close>

datatype 'n jsval =
    JUndefined
  | JNull
  | JBool bool
  | JNum 'n
  | JStr string
  | JArr "'n jsval list"
  | JObj "(string \<times> 'n jsval) list"

text \<open>\<^verbatim>\<open>s.startsWith(p)\<close> and \<^verbatim>\<open>s.substring(n)\<close> (for \<open>n \<ge> 0\<close>).\<close>

definition startsWith :: "string \<Rightarrow> string \<Rightarrow> bool" where
  "startsWith s p = (take (length p) s = p)"

definition substring :: "string \<Rightarrow> nat \<Rightarrow> string" where
  "substring s n = drop n s"

text \<open>
  \<^verbatim>\<open>v.k\<close> for a property name \<open>k\<close> that no built-in prototype defines (the script reads
  \<^verbatim>\<open>userId\<close> and \<^verbatim>\<open>tenantId\<close>): a \<^verbatim>\<open>TypeError\<close> on \<^verbatim>\<open>undefined\<close> and \<^verbatim>\<open>null\<close>, the own
  property of an object, \<^verbatim>\<open>undefined\<close> otherwise.
\<close>

fun get_prop :: "'n jsval \<Rightarrow> string \<Rightarrow> js_error + 'n jsval" where
  "get_prop JUndefined k = Inl TypeError"
| "get_prop JNull k = Inl TypeError"
| "get_prop (JObj ps) k = Inr (case map_of ps k of Some v \<Rightarrow> v | None \<Rightarrow> JUndefined)"
| "get_prop v k = Inr JUndefined"

text \<open>
  \<^verbatim>\<open>String(v)\<close>. How a number prints (\<^verbatim>\<open>Number.prototype.toString\<close>: plain digits, a
  fraction, or exponent form from \<open>10^21\<close>) belongs to the language runtime and is the
  parameter \<open>Number_toString\<close>. The other primitives print as the language defines. An
  array prints its elements joined by commas, \<^verbatim>\<open>undefined\<close> and \<^verbatim>\<open>null\<close> elements as the
  empty string. A parsed JSON object prints as \<^verbatim>\<open>[object Object]\<close> through the inherited
  \<^verbatim>\<open>toString\<close>; when it has an own property \<^verbatim>\<open>toString\<close> (never callable in parsed JSON)
  the inherited method is shadowed, \<^verbatim>\<open>valueOf\<close> yields no primitive, and the conversion
  throws a \<^verbatim>\<open>TypeError\<close>.
\<close>

fun String_js :: "('n \<Rightarrow> string) \<Rightarrow> 'n jsval \<Rightarrow> js_error + string"
  and join_js :: "('n \<Rightarrow> string) \<Rightarrow> 'n jsval list \<Rightarrow> js_error + string" where
  "String_js Number_toString JUndefined = Inr ''undefined''"
| "String_js Number_toString JNull = Inr ''null''"
| "String_js Number_toString (JBool b) = Inr (if b then ''true'' else ''false'')"
| "String_js Number_toString (JNum n) = Inr (Number_toString n)"
| "String_js Number_toString (JStr s) = Inr s"
| "String_js Number_toString (JArr xs) = join_js Number_toString xs"
| "String_js Number_toString (JObj ps) =
     (if ''toString'' \<in> fst ` set ps then Inl TypeError else Inr ''[object Object]'')"
| "join_js Number_toString [] = Inr []"
| "join_js Number_toString (x # xs) =
     (case (if x = JUndefined \<or> x = JNull then Inr [] else String_js Number_toString x) of
        Inl e \<Rightarrow> Inl e
      | Inr s \<Rightarrow>
          (if xs = [] then Inr s
           else (case join_js Number_toString xs of
                   Inl e \<Rightarrow> Inl e
                 | Inr r \<Rightarrow> Inr (s @ '','' @ r))))"

text \<open>
  One number type on which the printing is simple: an unsigned 32-bit integer prints as
  its decimal digits, without sign, fraction or exponent.
\<close>

fun digit_char :: "nat \<Rightarrow> char" where
  "digit_char n = char_of (48 + n)"

fun nat_digits :: "nat \<Rightarrow> string" where
  "nat_digits n = (if n < 10 then [digit_char n] else nat_digits (n div 10) @ [digit_char (n mod 10)])"

declare nat_digits.simps [simp del]

definition uint32_toString :: "32 word \<Rightarrow> string" where
  "uint32_toString w = nat_digits (unat w)"

section \<open>The credential-to-context resolver\<close>

text \<open>
  A request carries its headers, keyed by lower-cased name. A JavaScript object literal
  is an association list in the order the properties are written; the empty object is
  the empty list.
\<close>

record request =
  headers :: "string \<rightharpoonup> string"

type_synonym 'n js_object = "(string \<times> 'n jsval) list"

text \<open>
  \<^verbatim>\<open>jwt.verify(token, secret)\<close> belongs to the \<^verbatim>\<open>jsonwebtoken\<close> package: it is a parameter,
  returning the decoded payload or throwing. The resolver's other parameter is the
  number printing that \<^verbatim>\<open>String\<close> uses.
\<close>

type_synonym 'n verifier = "string \<Rightarrow> string \<Rightarrow> js_error + 'n jsval"

text \<open>The body of the \<^verbatim>\<open>try\<close> block of \<^verbatim>\<open>pgSettings\<close> (lines 160--165).\<close>

definition pgSettings_try ::
  "('n \<Rightarrow> string) \<Rightarrow> 'n verifier \<Rightarrow> string \<Rightarrow> string \<Rightarrow> js_error + 'n js_object" where
  "pgSettings_try Number_toString jwt_verify JWT_SECRET token =
     (case jwt_verify token JWT_SECRET of
        Inl e \<Rightarrow> Inl e
      | Inr decoded \<Rightarrow>
          (case get_prop decoded ''userId'' of
             Inl e \<Rightarrow> Inl e
           | Inr userId \<Rightarrow>
               (case String_js Number_toString userId of
                  Inl e \<Rightarrow> Inl e
                | Inr uid \<Rightarrow>
                    (case get_prop decoded ''tenantId'' of
                       Inl e \<Rightarrow> Inl e
                     | Inr tenantId \<Rightarrow>
                         Inr [(''user.id'', JStr uid), (''user.tenant_id'', tenantId)]))))"

text \<open>
  \<^verbatim>\<open>pgSettings\<close> (lines 150--169). The result is a sum so that an exception escaping to
  the caller would be visible as \<open>Inl\<close>; the \<^verbatim>\<open>catch\<close> clause turns every exception of the
  \<^verbatim>\<open>try\<close> block into the empty object.
\<close>

definition pgSettings ::
  "('n \<Rightarrow> string) \<Rightarrow> 'n verifier \<Rightarrow> string \<Rightarrow> request \<Rightarrow> js_error + 'n js_object" where
  "pgSettings Number_toString jwt_verify JWT_SECRET req =
     (case headers req ''authorization'' of
        None \<Rightarrow> Inr []
      | Some authHeader \<Rightarrow>
          (if authHeader = [] \<or> \<not> startsWith authHeader ''Bearer '' then Inr []
           else
             (let token = substring authHeader 7 in
              (case pgSettings_try Number_toString jwt_verify JWT_SECRET token of
                 Inl error \<Rightarrow> Inr []
               | Inr settings \<Rightarrow> Inr settings))))"

section \<open>Tier-gated engine options\<close>

text \<open>
  The options object passed to \<^verbatim>\<open>postgraphile\<close> (lines 172--216), as a function of
  \<^verbatim>\<open>IS_PRODUCTION\<close>. \<^verbatim>\<open>graphiqlRoute\<close> is \<^verbatim>\<open>false\<close> or a path, the two limits are
  \<^verbatim>\<open>undefined\<close> or a number: \<open>None\<close> stands for \<^verbatim>\<open>false\<close> and for \<^verbatim>\<open>undefined\<close>. The
  \<^verbatim>\<open>pgSettings\<close> entry is the resolver above, the same in both tiers.
\<close>

record engine_options =
  graphqlRoute :: string
  graphiqlRoute :: "string option"
  graphiql :: bool
  watchPg :: bool
  enableCors :: bool
  classicIds :: bool
  setofFunctionsContainNulls :: bool
  simpleCollections :: string
  dynamicJson :: bool
  sortExport :: bool
  extendedErrors :: "string list"
  showErrorStack :: bool
  retryOnInitFail :: bool
  maxAllowedComplexity :: "nat option"
  maxAllowedDepth :: "nat option"

definition postgraphile_options :: "bool \<Rightarrow> engine_options" where
  "postgraphile_options IS_PRODUCTION =
     \<lparr> graphqlRoute = ''/graphql'',
       graphiqlRoute = (if IS_PRODUCTION then None else Some ''/graphiql''),
       graphiql = (\<not> IS_PRODUCTION),
       watchPg = (\<not> IS_PRODUCTION),
       enableCors = True,
       classicIds = True,
       setofFunctionsContainNulls = True,
       simpleCollections = ''omit'',
       dynamicJson = True,
       sortExport = True,
       extendedErrors = (if IS_PRODUCTION then [] else [''hint'', ''detail'', ''errcode'']),
       showErrorStack = (\<not> IS_PRODUCTION),
       retryOnInitFail = True,
       maxAllowedComplexity = (if IS_PRODUCTION then Some 1000 else None),
       maxAllowedDepth = (if IS_PRODUCTION then Some 10 else None) \<rparr>"

section \<open>Environment and startup\<close>

text \<open>
  \<^verbatim>\<open>process.env\<close> maps names to strings. \<^verbatim>\<open>!process.env[key]\<close> holds for a variable that is
  unset and for one set to the empty string; \<^verbatim>\<open>process.env[key] || d\<close> is \<open>d\<close> in the same
  two cases.
\<close>

type_synonym environment = "string \<rightharpoonup> string"

definition truthy :: "string option \<Rightarrow> bool" where
  "truthy v = (case v of None \<Rightarrow> False | Some s \<Rightarrow> s \<noteq> [])"

definition or_default :: "string option \<Rightarrow> string \<Rightarrow> string" where
  "or_default v d = (if truthy v then (case v of Some s \<Rightarrow> s | None \<Rightarrow> d) else d)"

text \<open>\<^verbatim>\<open>xs.join(sep)\<close> on a list of strings.\<close>

fun join :: "string list \<Rightarrow> string \<Rightarrow> string" where
  "join [] sep = []"
| "join [x] sep = x"
| "join (x # y # ys) sep = x @ sep @ join (y # ys) sep"

definition newline :: string where
  "newline = [char_of (10 :: nat)]"

text \<open>
  The password mask of line 85, \<^verbatim>\<open>replace(/:[^:@]+@/, ':****@')\<close>: the leftmost place where
  a colon, one or more characters other than \<^verbatim>\<open>:\<close> and \<^verbatim>\<open>@\<close>, and an \<^verbatim>\<open>@\<close> follow each
  other is replaced, once. The character class excludes \<^verbatim>\<open>@\<close>, so the greedy run either
  ends right before an \<^verbatim>\<open>@\<close> or the match fails at this colon.
\<close>

definition pw_char :: "char \<Rightarrow> bool" where
  "pw_char c = (c \<noteq> CHR '':'' \<and> c \<noteq> CHR ''@'')"

text \<open>The rest of the string after a match that starts at its first character, if any.\<close>

definition match_here :: "string \<Rightarrow> string option" where
  "match_here s =
     (case s of
        [] \<Rightarrow> None
      | c # r \<Rightarrow>
          (if c = CHR '':'' \<and> takeWhile pw_char r \<noteq> [] then
             (case dropWhile pw_char r of
                [] \<Rightarrow> None
              | d # rest \<Rightarrow> (if d = CHR ''@'' then Some rest else None))
           else None))"

fun replace_password :: "string \<Rightarrow> string" where
  "replace_password [] = []"
| "replace_password (c # cs) =
     (case match_here (c # cs) of
        Some rest \<Rightarrow> '':****@'' @ rest
      | None \<Rightarrow> c # replace_password cs)"

text \<open>\<^verbatim>\<open>process.env.DATABASE_URL?.replace(...)\<close>: \<^verbatim>\<open>undefined\<close> stays \<^verbatim>\<open>undefined\<close>.\<close>

definition dbUrlSafe :: "environment \<Rightarrow> string option" where
  "dbUrlSafe env = map_option replace_password (env ''DATABASE_URL'')"

text \<open>
  What the script does to the outside world, in the order it does it. The pool's size
  bound is \<^verbatim>\<open>process.env.DATABASE_POOL_MAX || 20\<close>, kept as the text of the variable or of the
  default.
\<close>

record pool_config =
  connectionString :: "string option"
  max_clients :: string
  connectionTimeoutMillis :: nat
  idleTimeoutMillis :: nat

datatype effect =
    ConsoleError string
  | ConsoleErrorWith string js_error
  | ConsoleWarn string
  | ConsoleLog string
  | ProcessExit int
  | NewPool pool_config
  | Postgraphile engine_options
  | Listen string
  | ServerClose
  | PoolEnd

text \<open>
  \<^verbatim>\<open>validateEnv\<close> (lines 16--51). It returns what it printed and, when it called
  \<^verbatim>\<open>process.exit\<close>, the exit code: nothing of the script runs after that call.
\<close>

definition required :: "(string \<times> string) list" where
  "required =
     [(''DATABASE_URL'', ''PostgreSQL connection string''),
      (''JWT_SECRET'', ''JWT secret key for token verification'')]"

definition missing_vars :: "environment \<Rightarrow> string list" where
  "missing_vars env =
     map (\<lambda>(key, description). ''  - '' @ key @ '': '' @ description)
       (filter (\<lambda>(key, description). \<not> truthy (env key)) required)"

definition warnings_of :: "environment \<Rightarrow> string list" where
  "warnings_of env =
     (if env ''NODE_ENV'' = Some ''production'' then
        (if \<not> truthy (env ''JWT_SECRET'')
            \<or> (case env ''JWT_SECRET'' of Some s \<Rightarrow> length s < 32 | None \<Rightarrow> False)
         then [''  - JWT_SECRET should be at least 32 characters in production'']
         else [])
      else [])"

definition validateEnv :: "environment \<Rightarrow> effect list \<times> int option" where
  "validateEnv env =
     (let missing = missing_vars env; warnings = warnings_of env in
      if length missing > 0 then
        ([ConsoleError (''[FATAL] Missing required environment variables:'' @ newline
                        @ join missing newline),
          ConsoleError ''[FATAL] Please set these environment variables and restart the service.'',
          ProcessExit 1],
         Some 1)
      else
        ((if length warnings > 0
          then [ConsoleWarn (''[WARN] Security warnings:'' @ newline @ join warnings newline)]
          else [])
         @ [ConsoleLog ''[Config] Environment validation passed'',
            ConsoleLog (''[Config] NODE_ENV: '' @ or_default (env ''NODE_ENV'') ''development'')],
         None))"

text \<open>The configuration constants of lines 59--62.\<close>

definition PORT :: "environment \<Rightarrow> string" where
  "PORT env = or_default (env ''PORT'') ''4004''"

definition NODE_ENV :: "environment \<Rightarrow> string" where
  "NODE_ENV env = or_default (env ''NODE_ENV'') ''development''"

definition IS_PRODUCTION :: "environment \<Rightarrow> bool" where
  "IS_PRODUCTION env = (NODE_ENV env = ''production'')"

text \<open>
  The top level of the script, from \<^verbatim>\<open>validateEnv()\<close> (line 54) to \<^verbatim>\<open>app.listen\<close>
  (line 222). \<^verbatim>\<open>app.listen(PORT)\<close> belongs to the framework and the runtime: it binds the
  listener, or it fails, at once by throwing when it refuses the port (a number outside
  0..65535 is a \<^verbatim>\<open>RangeError\<close>), or through the server's \<^verbatim>\<open>error\<close> event when the system
  refuses the bind (address in use). It is the parameter \<open>listen\<close>, giving the exception
  raised for a port text, if any. The script catches no exception at the top level and
  handles no \<^verbatim>\<open>error\<close> event of the server: the process dies of either, with status 1. The
  script ends with the process exited, with an uncaught exception, or serving.
\<close>

datatype outcome = Exited int | Uncaught js_error | Serving

type_synonym listener_call = "string \<Rightarrow> js_error option"

definition insecure_secret :: "environment \<Rightarrow> js_error + bool" where
  "insecure_secret env =
     (if IS_PRODUCTION env then
        (case env ''JWT_SECRET'' of
           None \<Rightarrow> Inl TypeError
         | Some JWT_SECRET \<Rightarrow> Inr (length JWT_SECRET < 32))
      else Inr False)"

definition startup :: "listener_call \<Rightarrow> environment \<Rightarrow> effect list \<times> outcome" where
  "startup listen env =
     (case validateEnv env of
        (out, Some code) \<Rightarrow> (out, Exited code)
      | (out, None) \<Rightarrow>
          (case insecure_secret env of
             Inl e \<Rightarrow> (out, Uncaught e)
           | Inr True \<Rightarrow>
               (out @ [ConsoleError ''[FATAL] JWT_SECRET must be at least 32 characters in production'',
                       ProcessExit 1],
                Exited 1)
           | Inr False \<Rightarrow>
               (out @ [NewPool \<lparr> connectionString = env ''DATABASE_URL'',
                                 max_clients = or_default (env ''DATABASE_POOL_MAX'') ''20'',
                                 connectionTimeoutMillis = 10000,
                                 idleTimeoutMillis = 30000 \<rparr>,
                       ConsoleLog (''[PostgreSQL] Connecting to: ''
                                   @ or_default (dbUrlSafe env) ''DATABASE_URL not set''),
                       Postgraphile (postgraphile_options (IS_PRODUCTION env)),
                       Listen (PORT env)],
                (case listen (PORT env) of
                   None \<Rightarrow> Serving
                 | Some e \<Rightarrow> Uncaught e))))"

section \<open>The running process: pool faults and shutdown signals\<close>

text \<open>
  Once the script has run, the process reacts to events: a termination signal, an
  \<^verbatim>\<open>error\<close> event of the pool, the \<^verbatim>\<open>close\<close> event of the server, and the settling of the
  promise of \<^verbatim>\<open>pgPool.end()\<close> (resolved, or rejected with an error).
  The two signal handlers (lines 234--268) are the same up to the name they print: each
  prints, calls \<^verbatim>\<open>server.close\<close> with a callback that only prints, calls \<^verbatim>\<open>pgPool.end()\<close>
  and suspends at the \<^verbatim>\<open>await\<close>; when the promise settles the handler prints the
  outcome and calls \<^verbatim>\<open>process.exit(0)\<close>.

  \<^verbatim>\<open>server.close(callback)\<close> stops the listener and registers the callback for the next
  \<^verbatim>\<open>close\<close> event, also when the server is closing or closed already; the event runs
  every callback registered since the last one.
\<close>

datatype signal = SIGTERM | SIGINT

datatype listener_state = Accepting | Closing | Closed

datatype run_state = Running | Terminated int

datatype event =
    Signal signal
  | PoolError js_error
  | ServerClosed
  | PoolEndSettled "js_error option"

record process =
  effects :: "effect list"
  listener :: listener_state
  close_callbacks :: nat
  awaiting_pool_end :: nat
  state :: run_state

definition signal_name :: "signal \<Rightarrow> string" where
  "signal_name sg = (case sg of SIGTERM \<Rightarrow> ''SIGTERM'' | SIGINT \<Rightarrow> ''SIGINT'')"

text \<open>The synchronous part of a signal handler, up to its \<^verbatim>\<open>await\<close>.\<close>

definition on_signal :: "signal \<Rightarrow> process \<Rightarrow> process" where
  "on_signal sg p =
     p \<lparr> effects := effects p
            @ [ConsoleLog (''[System] '' @ signal_name sg @ '' received, shutting down...''),
               ServerClose, PoolEnd],
         listener := (if listener p = Accepting then Closing else listener p),
         close_callbacks := Suc (close_callbacks p),
         awaiting_pool_end := Suc (awaiting_pool_end p) \<rparr>"

text \<open>The rest of a signal handler, resumed when \<^verbatim>\<open>pgPool.end()\<close> has settled.\<close>

definition after_pool_end :: "js_error option \<Rightarrow> process \<Rightarrow> process" where
  "after_pool_end r p =
     p \<lparr> effects := effects p
            @ [(case r of
                  None \<Rightarrow> ConsoleLog ''[System] Database pool closed''
                | Some error \<Rightarrow> ConsoleErrorWith ''[System] Error closing database pool:'' error),
               ProcessExit 0],
         state := Terminated 0 \<rparr>"

text \<open>The pool's \<^verbatim>\<open>error\<close> handler (lines 79--82).\<close>

definition on_pool_error :: "js_error \<Rightarrow> process \<Rightarrow> process" where
  "on_pool_error err p =
     p \<lparr> effects := effects p
            @ [ConsoleErrorWith ''[PostgreSQL] Unexpected error on idle client'' err,
               ProcessExit (- 1)],
         state := Terminated (- 1) \<rparr>"

text \<open>The server's \<^verbatim>\<open>close\<close> event: each callback given to \<^verbatim>\<open>server.close\<close> prints its line.\<close>

definition on_server_closed :: "process \<Rightarrow> process" where
  "on_server_closed p =
     p \<lparr> effects := effects p
            @ replicate (close_callbacks p) (ConsoleLog ''[System] HTTP server closed''),
         listener := Closed,
         close_callbacks := 0 \<rparr>"

text \<open>
  One event. A terminated process reacts to nothing, and a server that was never asked
  to close has no \<^verbatim>\<open>close\<close> event.
\<close>

definition step :: "process \<Rightarrow> event \<Rightarrow> process" where
  "step p ev =
     (if state p \<noteq> Running then p
      else
        (case ev of
           Signal sg \<Rightarrow> on_signal sg p
         | PoolError err \<Rightarrow> on_pool_error err p
         | ServerClosed \<Rightarrow> (if listener p = Accepting then p else on_server_closed p)
         | PoolEndSettled r \<Rightarrow> (if awaiting_pool_end p > 0 then after_pool_end r p else p)))"

definition run :: "process \<Rightarrow> event list \<Rightarrow> process" where
  "run p evs = foldl step p evs"

text \<open>The process right after a startup that reached \<^verbatim>\<open>app.listen\<close>.\<close>

definition serving :: "effect list \<Rightarrow> process" where
  "serving out =
     \<lparr> effects = out, listener = Accepting, close_callbacks = 0, awaiting_pool_end = 0,
       state = Running \<rparr>"

text \<open>The status the operating system reports for \<^verbatim>\<open>process.exit(code)\<close>: its low byte.\<close>

definition exit_status :: "int \<Rightarrow> int" where
  "exit_status code = code mod 256"

section \<open>The schema endpoint\<close>

text \<open>
  The query of lines 118--128 reads \<^verbatim>\<open>information_schema.columns\<close>. A line of that view
  has, among others, the six columns the query mentions; the query keeps the lines of
  schema \<^verbatim>\<open>public\<close> whose table is \<^verbatim>\<open>users\<close> or \<^verbatim>\<open>tenants\<close>, orders them by table name and
  position, and selects four columns.
\<close>

record catalog_column =
  cat_table_schema :: string
  cat_table_name :: string
  cat_column_name :: string
  cat_ordinal_position :: nat
  cat_data_type :: string
  cat_is_nullable :: string

record row =
  table_name :: string
  column_name :: string
  data_type :: string
  is_nullable :: string

definition inspected_tables :: "string list" where
  "inspected_tables = [''users'', ''tenants'']"

definition select_row :: "catalog_column \<Rightarrow> row" where
  "select_row c =
     \<lparr> table_name = cat_table_name c,
       column_name = cat_column_name c,
       data_type = cat_data_type c,
       is_nullable = cat_is_nullable c \<rparr>"

definition schema_query :: "catalog_column list \<Rightarrow> row list" where
  "schema_query catalog =
     map select_row
       (sort_key (\<lambda>c. (cat_table_name c, cat_ordinal_position c))
          (filter (\<lambda>c. cat_table_schema c = ''public'' \<and> cat_table_name c \<in> set inspected_tables)
             catalog))"

text \<open>
  The handler (lines 129--146) groups the rows by table in an object created as \<^verbatim>\<open>{}\<close>,
  an association list here, in insertion order. \<^verbatim>\<open>tables[t]\<close> also finds what the object
  inherits from \<^verbatim>\<open>Object.prototype\<close>: for such a name that is not an own property the test
  \<^verbatim>\<open>!tables[t]\<close> fails, no entry is created, and \<^verbatim>\<open>tables[t].columns.push\<close> throws a
  \<^verbatim>\<open>TypeError\<close>, which the \<^verbatim>\<open>catch\<close> clause answers with status 500. The list keeps the
  order in which the tables first occur; JavaScript would list a key that is an array
  index (\<^verbatim>\<open>0\<close>, \<^verbatim>\<open>17\<close>) before the others, and the query returns no such table name.
\<close>

record column_info =
  name :: string
  type :: string
  nullable :: bool

type_synonym tables = "(string \<times> column_info list) list"

definition Object_prototype_keys :: "string list" where
  "Object_prototype_keys =
     [''constructor'', ''__proto__'', ''hasOwnProperty'', ''isPrototypeOf'',
      ''propertyIsEnumerable'', ''toLocaleString'', ''toString'', ''valueOf'',
      ''__defineGetter__'', ''__defineSetter__'', ''__lookupGetter__'', ''__lookupSetter__'']"

definition column_of :: "row \<Rightarrow> column_info" where
  "column_of r =
     \<lparr> name = column_name r, type = data_type r, nullable = (is_nullable r = ''YES'') \<rparr>"

fun push_column :: "tables \<Rightarrow> string \<Rightarrow> column_info \<Rightarrow> tables" where
  "push_column [] t col = []"
| "push_column ((k, cols) # rest) t col =
     (if k = t then (k, cols @ [col]) # rest else (k, cols) # push_column rest t col)"

definition add_row :: "tables \<Rightarrow> row \<Rightarrow> js_error + tables" where
  "add_row tbls r =
     (case map_of tbls (table_name r) of
        Some cols \<Rightarrow> Inr (push_column tbls (table_name r) (column_of r))
      | None \<Rightarrow>
          (if table_name r \<in> set Object_prototype_keys then Inl TypeError
           else Inr (push_column (tbls @ [(table_name r, [])]) (table_name r) (column_of r))))"

fun forEach_row :: "tables \<Rightarrow> row list \<Rightarrow> js_error + tables" where
  "forEach_row tbls [] = Inr tbls"
| "forEach_row tbls (r # rs) =
     (case add_row tbls r of Inl e \<Rightarrow> Inl e | Inr tbls' \<Rightarrow> forEach_row tbls' rs)"

datatype json_body = TablesBody tables | ErrorBody string

record response =
  status_code :: nat
  body :: json_body

text \<open>
  \<^verbatim>\<open>app.get('/schema', ...)\<close>, given how the query ended: the rows, or the error the
  awaited query was rejected with. It returns what it printed and the response.
\<close>

definition schema_handler :: "js_error + row list \<Rightarrow> effect list \<times> response" where
  "schema_handler query_result =
     (case (case query_result of Inl e \<Rightarrow> Inl e | Inr rows \<Rightarrow> forEach_row [] rows) of
        Inr tbls \<Rightarrow> ([], \<lparr> status_code = 200, body = TablesBody tbls \<rparr>)
      | Inl error \<Rightarrow>
          ([ConsoleErrorWith ''Schema query error:'' error],
           \<lparr> status_code = 500, body = ErrorBody ''Failed to fetch schema'' \<rparr>))"

section \<open>Reading traces and results\<close>

text \<open>What a list of effects holds: the warnings printed, the ports listened on, the pools created.\<close>

definition console_warnings :: "effect list \<Rightarrow> string list" where
  "console_warnings out = concat (map (\<lambda>e. case e of ConsoleWarn m \<Rightarrow> [m] | _ \<Rightarrow> []) out)"

definition listens :: "effect list \<Rightarrow> string list" where
  "listens out = concat (map (\<lambda>e. case e of Listen port \<Rightarrow> [port] | _ \<Rightarrow> []) out)"

definition pools_created :: "effect list \<Rightarrow> pool_config list" where
  "pools_created out = concat (map (\<lambda>e. case e of NewPool cfg \<Rightarrow> [cfg] | _ \<Rightarrow> []) out)"

text \<open>Kinds of events.\<close>

definition is_signal :: "event \<Rightarrow> bool" where
  "is_signal ev = (case ev of Signal sg \<Rightarrow> True | _ \<Rightarrow> False)"

definition is_pool_error :: "event \<Rightarrow> bool" where
  "is_pool_error ev = (case ev of PoolError err \<Rightarrow> True | _ \<Rightarrow> False)"

text \<open>
  The rows of one table, in the order of the query result, and the grouping the schema
  handler is expected to build from the rows seen so far: one entry per table that
  occurs, holding the columns of its rows in order.
\<close>

definition rows_of :: "row list \<Rightarrow> string \<Rightarrow> row list" where
  "rows_of rows t = filter (\<lambda>r. table_name r = t) rows"

definition grouped :: "tables \<Rightarrow> row list \<Rightarrow> bool" where
  "grouped tbls seen =
     (distinct (map fst tbls)
      \<and> (\<forall>t. map_of tbls t =
                (if t \<in> table_name ` set seen then Some (map column_of (rows_of seen t))
                 else None)))"

text \<open>
  A sample catalog: two columns of \<^verbatim>\<open>public.users\<close> out of order, one of \<^verbatim>\<open>public.tenants\<close>,
  a table outside the list and a table of another schema.
\<close>

definition sample_catalog :: "catalog_column list" where
  "sample_catalog =
     [\<lparr> cat_table_schema = ''public'', cat_table_name = ''users'', cat_column_name = ''email'',
        cat_ordinal_position = 2, cat_data_type = ''text'', cat_is_nullable = ''YES'' \<rparr>,
      \<lparr> cat_table_schema = ''public'', cat_table_name = ''orders'', cat_column_name = ''id'',
        cat_ordinal_position = 1, cat_data_type = ''integer'', cat_is_nullable = ''NO'' \<rparr>,
      \<lparr> cat_table_schema = ''public'', cat_table_name = ''users'', cat_column_name = ''id'',
        cat_ordinal_position = 1, cat_data_type = ''uuid'', cat_is_nullable = ''NO'' \<rparr>,
      \<lparr> cat_table_schema = ''audit'', cat_table_name = ''tenants'', cat_column_name = ''actor'',
        cat_ordinal_position = 1, cat_data_type = ''text'', cat_is_nullable = ''NO'' \<rparr>,
      \<lparr> cat_table_schema = ''public'', cat_table_name = ''tenants'', cat_column_name = ''name'',
        cat_ordinal_position = 1, cat_data_type = ''text'', cat_is_nullable = ''NO'' \<rparr>]"

section \<open>Properties of the resolver\<close>

text \<open>
  Claim C1. A request whose \<^verbatim>\<open>Authorization\<close> header is \<^verbatim>\<open>Bearer\<close> followed by a token that
  \<^verbatim>\<open>jwt.verify\<close> accepts (validly signed, unexpired), with a payload holding subject \<open>S\<close>
  under \<^verbatim>\<open>userId\<close>, resolves to exactly the object with \<^verbatim>\<open>user.id\<close> the string coercion
  of \<open>S\<close> and \<^verbatim>\<open>user.tenant_id\<close> the tenant identifier \<open>T\<close> of the payload; a payload with
  no \<^verbatim>\<open>tenantId\<close> contributes no identifier, the property then holds \<^verbatim>\<open>undefined\<close>. This
  holds for every number type and every way numbers print, so for every subject that
  \<^verbatim>\<open>String\<close> converts.
\<close>

theorem resolver_valid_credential:
  assumes "headers req ''authorization'' = Some (''Bearer '' @ token)"
    and "jwt_verify token JWT_SECRET = Inr (JObj payload)"
    and "map_of payload ''userId'' = Some S"
    and "String_js Number_toString S = Inr uid"
  shows "pgSettings Number_toString jwt_verify JWT_SECRET req =
           Inr [(''user.id'', JStr uid),
                (''user.tenant_id'',
                 (case map_of payload ''tenantId'' of Some T \<Rightarrow> T | None \<Rightarrow> JUndefined))]"
  using assms
  by (simp add: pgSettings_def pgSettings_try_def startsWith_def substring_def)

theorem resolver_valid_credential_witness:
  "pgSettings uint32_toString
     (\<lambda>token secret.
        if token = ''abc.def.ghi'' \<and> secret = ''k''
        then Inr (JObj [(''userId'', JNum 42), (''tenantId'', JStr ''t1'')])
        else Inl JsonWebTokenError)
     ''k'' \<lparr> headers = [''authorization'' \<mapsto> ''Bearer abc.def.ghi''] \<rparr>
   = Inr [(''user.id'', JStr ''42''), (''user.tenant_id'', JStr ''t1'')]
   \<and> pgSettings uint32_toString (\<lambda>token secret. Inr (JObj [(''userId'', JStr ''u-7'')]))
        ''k'' \<lparr> headers = [''authorization'' \<mapsto> ''Bearer abc.def.ghi''] \<rparr>
   = Inr [(''user.id'', JStr ''u-7''), (''user.tenant_id'', JUndefined)]"
proof -
  have "unat (42 :: 32 word) = 42"
    by simp
  moreover have "nat_digits 42 = ''42''"
    by code_simp
  ultimately have coerced: "String_js uint32_toString (JNum 42) = Inr ''42''"
    by (simp add: uint32_toString_def)
  have with_tenant:
    "pgSettings uint32_toString
       (\<lambda>token secret.
          if token = ''abc.def.ghi'' \<and> secret = ''k''
          then Inr (JObj [(''userId'', JNum 42), (''tenantId'', JStr ''t1'')])
          else Inl JsonWebTokenError)
       ''k'' \<lparr> headers = [''authorization'' \<mapsto> ''Bearer abc.def.ghi''] \<rparr>
     = Inr [(''user.id'', JStr ''42''), (''user.tenant_id'', JStr ''t1'')]"
    using resolver_valid_credential
            [of "\<lparr> headers = [''authorization'' \<mapsto> ''Bearer abc.def.ghi''] \<rparr>"
                "''abc.def.ghi''"
                "\<lambda>token secret.
                   if token = ''abc.def.ghi'' \<and> secret = ''k''
                   then Inr (JObj [(''userId'', JNum 42), (''tenantId'', JStr ''t1'')])
                   else Inl JsonWebTokenError"
                "''k''" "[(''userId'', JNum 42), (''tenantId'', JStr ''t1'')]" "JNum 42"
                uint32_toString "''42''"]
          coerced
    by simp
  have without_tenant:
    "pgSettings uint32_toString (\<lambda>token secret. Inr (JObj [(''userId'', JStr ''u-7'')]))
       ''k'' \<lparr> headers = [''authorization'' \<mapsto> ''Bearer abc.def.ghi''] \<rparr>
     = Inr [(''user.id'', JStr ''u-7''), (''user.tenant_id'', JUndefined)]"
    using resolver_valid_credential
            [of "\<lparr> headers = [''authorization'' \<mapsto> ''Bearer abc.def.ghi''] \<rparr>"
                "''abc.def.ghi''" "\<lambda>token secret. Inr (JObj [(''userId'', JStr ''u-7'')])"
                "''k''" "[(''userId'', JStr ''u-7'')]" "JStr ''u-7''" uint32_toString "''u-7''"]
    by simp
  from with_tenant without_tenant show ?thesis
    by (rule conjI)
qed

text \<open>
  Claim C2. The resolver never throws to its caller: for every verifier, secret and
  request it returns an object. It returns the empty object when the request has no
  \<^verbatim>\<open>Authorization\<close> header (or an empty one), and when the header is \<^verbatim>\<open>Bearer\<close> followed by
  a token that \<^verbatim>\<open>jwt.verify\<close> rejects, whatever the error (malformed, expired, ...).
\<close>

theorem resolver_total_fail_open:
  "(\<exists>ctx. pgSettings Number_toString jwt_verify JWT_SECRET req = Inr ctx)
   \<and> (\<not> truthy (headers req ''authorization'') \<longrightarrow>
        pgSettings Number_toString jwt_verify JWT_SECRET req = Inr [])
   \<and> (headers req ''authorization'' = Some (''Bearer '' @ token)
        \<and> jwt_verify token JWT_SECRET = Inl e \<longrightarrow>
        pgSettings Number_toString jwt_verify JWT_SECRET req = Inr [])"
  by (auto simp: pgSettings_def pgSettings_try_def truthy_def startsWith_def substring_def
           split: option.splits sum.splits)

theorem resolver_total_fail_open_witness:
  "\<not> truthy (headers \<lparr> headers = Map.empty \<rparr> ''authorization'')
   \<and> pgSettings uint32_toString (\<lambda>token secret. Inl TokenExpiredError) ''k''
        \<lparr> headers = Map.empty \<rparr> = Inr []
   \<and> pgSettings uint32_toString (\<lambda>token secret. Inl TokenExpiredError) ''k''
        \<lparr> headers = [''authorization'' \<mapsto> ''Bearer old.token.sig''] \<rparr> = Inr []"
  using resolver_total_fail_open [of uint32_toString "\<lambda>token secret. Inl TokenExpiredError" "''k''"
          "\<lparr> headers = Map.empty \<rparr>" "''x''" TokenExpiredError]
        resolver_total_fail_open [of uint32_toString "\<lambda>token secret. Inl TokenExpiredError" "''k''"
          "\<lparr> headers = [''authorization'' \<mapsto> ''Bearer old.token.sig''] \<rparr>" "''old.token.sig''"
          TokenExpiredError]
  by (simp add: truthy_def)

text \<open>
  Claim C10. When the \<^verbatim>\<open>Authorization\<close> header is present but does not start with
  \<^verbatim>\<open>Bearer \<close>, the resolver returns the empty object, and it does so for every verifier:
  the result does not depend on \<^verbatim>\<open>jwt.verify\<close>, which is not consulted.
\<close>

theorem resolver_non_bearer:
  assumes "headers req ''authorization'' = Some authHeader"
    and "\<not> startsWith authHeader ''Bearer ''"
  shows "pgSettings Number_toString jwt_verify JWT_SECRET req = Inr []"
  using assms by (simp add: pgSettings_def)

theorem resolver_non_bearer_witness:
  "\<not> startsWith ''Basic dXNlcjpwdw=='' ''Bearer ''
   \<and> pgSettings uint32_toString (\<lambda>token secret. Inr (JObj [(''userId'', JNum 1)])) ''k''
        \<lparr> headers = [''authorization'' \<mapsto> ''Basic dXNlcjpwdw==''] \<rparr> = Inr []"
  using resolver_non_bearer
          [of "\<lparr> headers = [''authorization'' \<mapsto> ''Basic dXNlcjpwdw==''] \<rparr>"
              "''Basic dXNlcjpwdw==''" uint32_toString
              "\<lambda>token secret. Inr (JObj [(''userId'', JNum 1)])" "''k''"]
  by (simp add: startsWith_def)

section \<open>Properties of the engine options\<close>

text \<open>
  Claim C3. The options depend on the tier alone, and the tier is production exactly
  when \<^verbatim>\<open>NODE_ENV\<close> is \<^verbatim>\<open>production\<close>. In production the explorer route and the explorer
  are off, schema watching is off, no extended error fields and no stack are exposed,
  and complexity and depth are capped at 1000 and 10. Outside production the explorer
  is served at \<^verbatim>\<open>/graphiql\<close>, schema watching is on, the error fields \<^verbatim>\<open>hint\<close>, \<^verbatim>\<open>detail\<close>,
  \<^verbatim>\<open>errcode\<close> and the stack are exposed, and neither limit is set.
\<close>

theorem engine_options_by_tier:
  "IS_PRODUCTION env = (env ''NODE_ENV'' = Some ''production'')
   \<and> graphiqlRoute (postgraphile_options True) = None
   \<and> \<not> graphiql (postgraphile_options True)
   \<and> \<not> watchPg (postgraphile_options True)
   \<and> extendedErrors (postgraphile_options True) = []
   \<and> \<not> showErrorStack (postgraphile_options True)
   \<and> maxAllowedComplexity (postgraphile_options True) = Some 1000
   \<and> maxAllowedDepth (postgraphile_options True) = Some 10
   \<and> graphiqlRoute (postgraphile_options False) = Some ''/graphiql''
   \<and> graphiql (postgraphile_options False)
   \<and> watchPg (postgraphile_options False)
   \<and> extendedErrors (postgraphile_options False) = [''hint'', ''detail'', ''errcode'']
   \<and> showErrorStack (postgraphile_options False)
   \<and> maxAllowedComplexity (postgraphile_options False) = None
   \<and> maxAllowedDepth (postgraphile_options False) = None"
  by (auto simp: postgraphile_options_def IS_PRODUCTION_def NODE_ENV_def or_default_def
                 truthy_def split: option.splits)

section \<open>Properties of startup\<close>

lemma missing_vars_nonempty:
  "\<not> truthy (env ''DATABASE_URL'') \<or> \<not> truthy (env ''JWT_SECRET'') \<Longrightarrow> missing_vars env \<noteq> []"
  by (auto simp: missing_vars_def required_def)

lemma missing_vars_empty:
  "truthy (env ''DATABASE_URL'') \<Longrightarrow> truthy (env ''JWT_SECRET'') \<Longrightarrow> missing_vars env = []"
  by (simp add: missing_vars_def required_def)

text \<open>
  Claim C5. When \<^verbatim>\<open>DATABASE_URL\<close> or \<^verbatim>\<open>JWT_SECRET\<close> is absent (unset, or empty), the script
  prints the two fatal messages and calls \<^verbatim>\<open>process.exit(1)\<close> inside \<^verbatim>\<open>validateEnv\<close>: that is
  all it does, once. No pool is created and no listener is bound. The code 1 is not
  zero, and differs from the status of a graceful shutdown and of a pool fault.
\<close>

theorem startup_missing_required:
  assumes "\<not> truthy (env ''DATABASE_URL'') \<or> \<not> truthy (env ''JWT_SECRET'')"
  shows "startup listen env =
           ([ConsoleError (''[FATAL] Missing required environment variables:'' @ newline
                           @ join (missing_vars env) newline),
             ConsoleError ''[FATAL] Please set these environment variables and restart the service.'',
             ProcessExit 1],
            Exited 1)
         \<and> listens (fst (startup listen env)) = []
         \<and> pools_created (fst (startup listen env)) = []
         \<and> exit_status 1 = 1 \<and> exit_status 1 \<noteq> exit_status 0
         \<and> exit_status 1 \<noteq> exit_status (- 1)"
  using missing_vars_nonempty [OF assms]
  by (simp add: startup_def validateEnv_def listens_def pools_created_def exit_status_def)

theorem startup_missing_required_witness:
  "\<not> truthy ([''JWT_SECRET'' \<mapsto> ''0123456789abcdef0123456789abcdef''] ''DATABASE_URL'')
   \<and> startup (\<lambda>port. None) [''JWT_SECRET'' \<mapsto> ''0123456789abcdef0123456789abcdef''] =
       ([ConsoleError (''[FATAL] Missing required environment variables:'' @ newline
                       @ ''  - DATABASE_URL: PostgreSQL connection string''),
         ConsoleError ''[FATAL] Please set these environment variables and restart the service.'',
         ProcessExit 1],
        Exited 1)"
  using startup_missing_required
          [of "[''JWT_SECRET'' \<mapsto> ''0123456789abcdef0123456789abcdef'']" "\<lambda>port. None"]
  by (simp add: truthy_def missing_vars_def required_def)

text \<open>
  Claim C4, as stated, fails outside production: with a five-character secret and
  \<^verbatim>\<open>NODE_ENV=development\<close> startup continues, but no warning is printed. The warning
  of \<^verbatim>\<open>validateEnv\<close> is guarded by \<^verbatim>\<open>NODE_ENV === 'production'\<close>.
\<close>

theorem short_secret_dev_counterexample:
  "length ''short'' < (32 :: nat)
   \<and> console_warnings
        (fst (startup (\<lambda>port. None)
                [''DATABASE_URL'' \<mapsto> ''postgres://h/db'', ''JWT_SECRET'' \<mapsto> ''short'',
                 ''NODE_ENV'' \<mapsto> ''development''])) = []
   \<and> snd (startup (\<lambda>port. None)
             [''DATABASE_URL'' \<mapsto> ''postgres://h/db'', ''JWT_SECRET'' \<mapsto> ''short'',
              ''NODE_ENV'' \<mapsto> ''development'']) = Serving"
  by (simp add: startup_def validateEnv_def missing_vars_def required_def truthy_def
                warnings_of_def insecure_secret_def IS_PRODUCTION_def NODE_ENV_def or_default_def
                console_warnings_def)

text \<open>
  Claim C4, amended. With the database connection string present and a secret that is
  present but shorter than 32 characters: in production \<^verbatim>\<open>validateEnv\<close> prints the security
  warning and the script then exits with code 1 before listening; outside production no
  warning is printed and startup continues to \<^verbatim>\<open>app.listen\<close>, after which the process is
  serving, unless \<^verbatim>\<open>app.listen\<close> refuses the port and the process dies of that exception.
\<close>

theorem short_secret_by_tier:
  assumes "truthy (env ''DATABASE_URL'')"
    and "env ''JWT_SECRET'' = Some secret" and "secret \<noteq> []" and "length secret < 32"
  shows "(env ''NODE_ENV'' = Some ''production'' \<longrightarrow>
            snd (startup listen env) = Exited 1
            \<and> console_warnings (fst (startup listen env)) =
                [''[WARN] Security warnings:'' @ newline
                 @ ''  - JWT_SECRET should be at least 32 characters in production'']
            \<and> listens (fst (startup listen env)) = [])
         \<and> (env ''NODE_ENV'' \<noteq> Some ''production'' \<longrightarrow>
            console_warnings (fst (startup listen env)) = []
            \<and> listens (fst (startup listen env)) = [PORT env]
            \<and> snd (startup listen env) =
                (case listen (PORT env) of None \<Rightarrow> Serving | Some e \<Rightarrow> Uncaught e))"
proof -
  have m: "missing_vars env = []"
    using assms by (simp add: missing_vars_empty truthy_def)
  have p: "IS_PRODUCTION env = (env ''NODE_ENV'' = Some ''production'')"
    by (auto simp: IS_PRODUCTION_def NODE_ENV_def or_default_def truthy_def split: option.splits)
  show ?thesis
    using assms m p
    by (simp add: startup_def validateEnv_def warnings_of_def insecure_secret_def
                  console_warnings_def listens_def)
qed

theorem short_secret_by_tier_witness:
  "snd (startup (\<lambda>port. if port = ''99999'' then Some RangeError else None)
          [''DATABASE_URL'' \<mapsto> ''postgres://h/db'', ''JWT_SECRET'' \<mapsto> ''0123456789abcdef'',
           ''NODE_ENV'' \<mapsto> ''production'']) = Exited 1
   \<and> snd (startup (\<lambda>port. if port = ''99999'' then Some RangeError else None)
          [''DATABASE_URL'' \<mapsto> ''postgres://h/db'', ''JWT_SECRET'' \<mapsto> ''0123456789abcdef''])
       = Serving
   \<and> console_warnings
       (fst (startup (\<lambda>port. if port = ''99999'' then Some RangeError else None)
               [''DATABASE_URL'' \<mapsto> ''postgres://h/db'', ''JWT_SECRET'' \<mapsto> ''0123456789abcdef'']))
       = []
   \<and> snd (startup (\<lambda>port. if port = ''99999'' then Some RangeError else None)
          [''DATABASE_URL'' \<mapsto> ''postgres://h/db'', ''JWT_SECRET'' \<mapsto> ''0123456789abcdef'',
           ''PORT'' \<mapsto> ''99999''])
       = Uncaught RangeError"
  using short_secret_by_tier
          [of "[''DATABASE_URL'' \<mapsto> ''postgres://h/db'', ''JWT_SECRET'' \<mapsto> ''0123456789abcdef'',
                ''NODE_ENV'' \<mapsto> ''production'']"
              "''0123456789abcdef''" "\<lambda>port. if port = ''99999'' then Some RangeError else None"]
        short_secret_by_tier
          [of "[''DATABASE_URL'' \<mapsto> ''postgres://h/db'', ''JWT_SECRET'' \<mapsto> ''0123456789abcdef'']"
              "''0123456789abcdef''" "\<lambda>port. if port = ''99999'' then Some RangeError else None"]
        short_secret_by_tier
          [of "[''DATABASE_URL'' \<mapsto> ''postgres://h/db'', ''JWT_SECRET'' \<mapsto> ''0123456789abcdef'',
                ''PORT'' \<mapsto> ''99999'']"
              "''0123456789abcdef''" "\<lambda>port. if port = ''99999'' then Some RangeError else None"]
  by (simp add: truthy_def PORT_def or_default_def)

section \<open>Properties of the password mask\<close>

lemma match_here_segment:
  assumes "pw \<noteq> []" and "\<forall>c \<in> set pw. pw_char c"
  shows "match_here (CHR '':'' # pw @ CHR ''@'' # post) = Some post"
proof -
  have t: "takeWhile pw_char (pw @ CHR ''@'' # post) = pw"
    using assms(2) by (simp add: takeWhile_append2 pw_char_def)
  have d: "dropWhile pw_char (pw @ CHR ''@'' # post) = CHR ''@'' # post"
    using assms(2) by (simp add: dropWhile_append2 pw_char_def)
  show ?thesis
    using assms(1) by (simp add: match_here_def t d)
qed

lemma dropWhile_reaches_colon:
  "CHR ''@'' \<notin> set cs \<Longrightarrow> \<exists>rest. dropWhile pw_char (cs @ CHR '':'' # t) = CHR '':'' # rest"
  by (induction cs) (auto simp: pw_char_def)

lemma match_here_before_at:
  assumes "CHR ''@'' \<notin> set cs"
  shows "match_here (c # cs @ CHR '':'' # t) = None"
proof -
  obtain rest where "dropWhile pw_char (cs @ CHR '':'' # t) = CHR '':'' # rest"
    using dropWhile_reaches_colon [OF assms] by blast
  then show ?thesis
    by (simp add: match_here_def)
qed

lemma replace_password_prefix:
  "CHR ''@'' \<notin> set pre \<Longrightarrow>
   replace_password (pre @ CHR '':'' # t) = pre @ replace_password (CHR '':'' # t)"
proof (induction pre)
  case Nil
  then show ?case by simp
next
  case (Cons c cs)
  then have "match_here (c # cs @ CHR '':'' # t) = None"
    by (simp add: match_here_before_at)
  with Cons show ?case by simp
qed

text \<open>
  Where the password has neither \<^verbatim>\<open>:\<close> nor \<^verbatim>\<open>@\<close>, and no \<^verbatim>\<open>@\<close> comes before it, the mask does
  what the comment of line 84 says: the whole password is replaced by four stars and
  nothing else changes.
\<close>

lemma dbUrlSafe_masks_simple_password:
  assumes "env ''DATABASE_URL'' = Some (pre @ '':'' @ pw @ ''@'' @ post)"
    and "pw \<noteq> []"
    and "\<forall>c \<in> set pw. c \<noteq> CHR '':'' \<and> c \<noteq> CHR ''@''"
    and "CHR ''@'' \<notin> set pre"
  shows "dbUrlSafe env = Some (pre @ '':****@'' @ post)"
proof -
  have "replace_password (pre @ CHR '':'' # pw @ CHR ''@'' # post)
          = pre @ replace_password (CHR '':'' # pw @ CHR ''@'' # post)"
    using assms(4) by (rule replace_password_prefix)
  also have "\<dots> = pre @ '':****@'' @ post"
    using match_here_segment [of pw post] assms(2,3) by (simp add: pw_char_def)
  finally show ?thesis
    using assms(1) by (simp add: dbUrlSafe_def)
qed

text \<open>
  Claim C6 is what the code sets out to do (line 84: log the connection without exposing
  credentials), and the code misses it for a password that contains \<^verbatim>\<open>:\<close> or \<^verbatim>\<open>@\<close>. For
  user \<^verbatim>\<open>user\<close> with password \<^verbatim>\<open>pa:ss\<close> the logged string keeps \<^verbatim>\<open>pa\<close> and masks only \<^verbatim>\<open>ss\<close>;
  with password \<^verbatim>\<open>p@ss\<close> it masks \<^verbatim>\<open>p\<close> and keeps \<^verbatim>\<open>ss\<close>. In both the password is not
  replaced by the mask, and a part of it is printed.
\<close>

theorem dbUrlSafe_partial_mask:
  "dbUrlSafe [''DATABASE_URL'' \<mapsto> ''postgres://user:pa:ss@host/db'']
     = Some ''postgres://user:pa:****@host/db''
   \<and> dbUrlSafe [''DATABASE_URL'' \<mapsto> ''postgres://user:p@ss@host/db'']
     = Some ''postgres://user:****@ss@host/db''"
  by (simp add: dbUrlSafe_def match_here_def pw_char_def)

section \<open>Properties of the running process\<close>

lemma run_snoc: "run p (evs @ [ev]) = step (run p evs) ev"
  by (simp add: run_def)

lemma step_terminated: "state p \<noteq> Running \<Longrightarrow> step p ev = p"
  by (simp add: step_def)

lemma run_terminated: "state p \<noteq> Running \<Longrightarrow> run p evs = p"
  by (induction evs rule: rev_induct) (simp_all add: run_def step_terminated)

lemma awaiting_needs_signal:
  "awaiting_pool_end (run (serving out) evs) > 0 \<Longrightarrow> \<exists>ev \<in> set evs. is_signal ev"
proof (induction evs rule: rev_induct)
  case Nil
  then show ?case by (simp add: run_def serving_def)
next
  case (snoc ev evs)
  show ?case
  proof (cases "is_signal ev")
    case True
    then show ?thesis by simp
  next
    case False
    then have "awaiting_pool_end (step (run (serving out) evs) ev)
                 = awaiting_pool_end (run (serving out) evs)"
      by (cases ev)
         (simp_all add: step_def is_signal_def on_pool_error_def on_server_closed_def
                        after_pool_end_def)
    with snoc show ?thesis by (simp add: run_snoc)
  qed
qed

lemma terminated_cause:
  "state (run (serving out) evs) = Terminated code \<Longrightarrow>
     (code = 0 \<and> (\<exists>ev \<in> set evs. is_signal ev))
     \<or> (code = - 1 \<and> (\<exists>ev \<in> set evs. is_pool_error ev))"
proof (induction evs rule: rev_induct)
  case Nil
  then show ?case by (simp add: run_def serving_def)
next
  case (snoc ev evs)
  let ?p = "run (serving out) evs"
  show ?case
  proof (cases "state ?p = Running")
    case False
    then have "step ?p ev = ?p" by (rule step_terminated)
    with snoc show ?thesis by (auto simp: run_snoc)
  next
    case True
    show ?thesis
    proof (cases ev)
      case (Signal sg)
      with True snoc.prems show ?thesis
        by (simp add: run_snoc step_def on_signal_def)
    next
      case (PoolError err)
      with True snoc.prems show ?thesis
        by (simp add: run_snoc step_def on_pool_error_def is_pool_error_def)
    next
      case ServerClosed
      with True snoc.prems show ?thesis
        by (simp add: run_snoc step_def on_server_closed_def split: if_splits)
    next
      case (PoolEndSettled r)
      with True snoc.prems have a: "awaiting_pool_end ?p > 0" and c: "code = 0"
        by (auto simp: run_snoc step_def after_pool_end_def split: if_splits)
      from awaiting_needs_signal [OF a] c show ?thesis by auto
    qed
  qed
qed

text \<open>
  Claim C7. A signal followed by the settling of the pool drain ends the process with
  code 0. Whenever the process has ended, it ended with 0 after a signal or with \<open>-1\<close>
  after a pool fault. Every exit during startup has code 1, a non-zero status. A pool
  \<^verbatim>\<open>error\<close> event in a running process ends the whole process with code \<open>-1\<close>, status 255:
  nothing reacts to later events.
\<close>

theorem exit_codes:
  "state (run (serving out) [Signal sg, PoolEndSettled r]) = Terminated 0
   \<and> exit_status 0 = 0
   \<and> (state (run (serving out) evs) = Terminated code' \<longrightarrow>
         (code' = 0 \<and> (\<exists>ev \<in> set evs. is_signal ev))
         \<or> (code' = - 1 \<and> (\<exists>ev \<in> set evs. is_pool_error ev)))
   \<and> (snd (startup listen env) = Exited code \<longrightarrow> code = 1 \<and> exit_status code \<noteq> 0)
   \<and> (state p = Running \<longrightarrow>
         state (step p (PoolError err)) = Terminated (- 1)
         \<and> exit_status (- 1) = 255
         \<and> run (step p (PoolError err)) evs' = step p (PoolError err))"
proof -
  have graceful: "state (run (serving out) [Signal sg, PoolEndSettled r]) = Terminated 0"
    by (simp add: run_def step_def serving_def on_signal_def after_pool_end_def)
  have cause:
    "state (run (serving out) evs) = Terminated code' \<longrightarrow>
       (code' = 0 \<and> (\<exists>ev \<in> set evs. is_signal ev))
       \<or> (code' = - 1 \<and> (\<exists>ev \<in> set evs. is_pool_error ev))"
    using terminated_cause [of out evs code'] by blast
  have boot: "snd (startup listen env) = Exited code \<longrightarrow> code = 1 \<and> exit_status code \<noteq> 0"
    by (auto simp: startup_def validateEnv_def exit_status_def Let_def
             split: if_splits sum.splits bool.splits option.splits)
  have fault: "state p = Running \<longrightarrow>
         state (step p (PoolError err)) = Terminated (- 1)
         \<and> exit_status (- 1) = 255
         \<and> run (step p (PoolError err)) evs' = step p (PoolError err)"
  proof
    assume "state p = Running"
    then have t: "state (step p (PoolError err)) = Terminated (- 1)"
      by (simp add: step_def on_pool_error_def)
    then have "run (step p (PoolError err)) evs' = step p (PoolError err)"
      by (simp add: run_terminated)
    with t show "state (step p (PoolError err)) = Terminated (- 1)
         \<and> exit_status (- 1) = 255
         \<and> run (step p (PoolError err)) evs' = step p (PoolError err)"
      by (simp add: exit_status_def)
  qed
  from graceful cause boot fault show ?thesis
    by (simp add: exit_status_def)
qed

theorem exit_codes_witness:
  "state (run (serving []) [Signal SIGTERM, ServerClosed, PoolEndSettled None]) = Terminated 0
   \<and> is_signal (Signal SIGTERM)
   \<and> snd (startup (\<lambda>port. None) Map.empty) = Exited 1
   \<and> state (serving []) = Running
   \<and> state (step (serving []) (PoolError (DatabaseError ''terminating connection''))) = Terminated (- 1)
   \<and> run (step (serving []) (PoolError (DatabaseError ''terminating connection''))) [Signal SIGINT, PoolEndSettled None]
       = step (serving []) (PoolError (DatabaseError ''terminating connection''))"
proof -
  have a: "state (run (serving []) [Signal SIGTERM, ServerClosed, PoolEndSettled None]) = Terminated 0"
    by (simp add: run_def step_def serving_def on_signal_def after_pool_end_def on_server_closed_def)
  have b: "snd (startup (\<lambda>port. None) Map.empty) = Exited 1"
    by (simp add: startup_def validateEnv_def missing_vars_def required_def truthy_def)
  have c: "state (serving []) = Running"
    by (simp add: serving_def)
  show ?thesis
    using exit_codes [where out = "[]" and sg = SIGTERM and r = None
                        and evs = "[Signal SIGTERM, ServerClosed, PoolEndSettled None]"
                        and code' = 0 and listen = "\<lambda>port. None" and env = Map.empty and code = 1
                        and p = "serving []" and err = "DatabaseError ''terminating connection''"
                        and evs' = "[Signal SIGINT, PoolEndSettled None]"] a b c
    by (simp add: is_signal_def)
qed

text \<open>
  Claim C8, as stated, fails: the handler does not await the listener. When the pool
  drain settles before the callback of \<^verbatim>\<open>server.close\<close> has run, the process exits with
  the listener still closing; the callback's message is never printed.
\<close>

theorem shutdown_exits_before_listener_closed:
  "state (run (serving []) [Signal SIGTERM, PoolEndSettled None]) = Terminated 0
   \<and> listener (run (serving []) [Signal SIGTERM, PoolEndSettled None]) = Closing
   \<and> effects (run (serving []) [Signal SIGTERM, PoolEndSettled None]) =
       [ConsoleLog ''[System] SIGTERM received, shutting down...'', ServerClose, PoolEnd,
        ConsoleLog ''[System] Database pool closed'', ProcessExit 0]"
  by (simp add: run_def step_def serving_def on_signal_def after_pool_end_def signal_name_def)

text \<open>
  Claim C8, amended. On a signal the handler calls \<^verbatim>\<open>server.close\<close> at once, so the
  listener no longer accepts connections, and the process keeps running. The completion
  of the listener close does not end the process. The handler awaits the pool drain
  only: when it settles, resolved or rejected, before or after the listener has closed,
  the process exits with code 0; a rejection is printed, not re-raised.
\<close>

theorem shutdown_awaits_pool_only:
  assumes "state p = Running"
  shows "listener (step p (Signal sg)) \<noteq> Accepting
         \<and> state (step p (Signal sg)) = Running
         \<and> state (step (step p (Signal sg)) ServerClosed) = Running
         \<and> state (step (step p (Signal sg)) (PoolEndSettled r)) = Terminated 0
         \<and> state (step (step (step p (Signal sg)) ServerClosed) (PoolEndSettled r)) = Terminated 0
         \<and> effects (step (step p (Signal sg)) (PoolEndSettled (Some e))) =
             effects (step p (Signal sg))
             @ [ConsoleErrorWith ''[System] Error closing database pool:'' e, ProcessExit 0]"
  using assms
  by (simp add: step_def on_signal_def after_pool_end_def on_server_closed_def)

theorem shutdown_awaits_pool_only_witness:
  "state (serving []) = Running
   \<and> listener (step (serving []) (Signal SIGINT)) = Closing
   \<and> state (step (step (serving []) (Signal SIGINT)) (PoolEndSettled (Some (DatabaseError ''timeout''))))
       = Terminated 0
   \<and> effects (step (step (serving []) (Signal SIGINT)) (PoolEndSettled (Some (DatabaseError ''timeout''))))
       = [ConsoleLog ''[System] SIGINT received, shutting down...'', ServerClose, PoolEnd,
          ConsoleErrorWith ''[System] Error closing database pool:'' (DatabaseError ''timeout''),
          ProcessExit 0]"
proof -
  have c: "state (serving []) = Running"
    by (simp add: serving_def)
  have l: "listener (step (serving []) (Signal SIGINT)) = Closing"
    by (simp add: step_def serving_def on_signal_def)
  have e: "effects (step (serving []) (Signal SIGINT)) =
             [ConsoleLog ''[System] SIGINT received, shutting down...'', ServerClose, PoolEnd]"
    by (simp add: step_def serving_def on_signal_def signal_name_def)
  show ?thesis
    using shutdown_awaits_pool_only [OF c, of SIGINT "Some (DatabaseError ''timeout'')"
                                       "DatabaseError ''timeout''"] c l e
    by simp
qed

section \<open>Properties of the schema endpoint\<close>

lemma grouped_keys: "grouped tbls seen \<Longrightarrow> set (map fst tbls) = table_name ` set seen"
proof -
  assume g: "grouped tbls seen"
  have "set (map fst tbls) = dom (map_of tbls)"
    by (simp add: dom_map_of_conv_image_fst)
  also have "\<dots> = table_name ` set seen"
    using g by (auto simp: grouped_def dom_def)
  finally show ?thesis .
qed

lemma push_column_keys: "map fst (push_column tbls t col) = map fst tbls"
  by (induction tbls t col rule: push_column.induct) auto

lemma push_column_hit:
  "map_of tbls t = Some cols \<Longrightarrow> map_of (push_column tbls t col) t = Some (cols @ [col])"
  by (induction tbls t col rule: push_column.induct) (auto split: if_splits)

lemma push_column_other:
  "k \<noteq> t \<Longrightarrow> map_of (push_column tbls t col) k = map_of tbls k"
  by (induction tbls t col rule: push_column.induct) auto

lemma rows_of_snoc:
  "rows_of (seen @ [r]) k = (if table_name r = k then rows_of seen k @ [r] else rows_of seen k)"
  by (simp add: rows_of_def)

lemma rows_of_unseen: "t \<notin> table_name ` set seen \<Longrightarrow> rows_of seen t = []"
  by (auto simp: rows_of_def filter_empty_conv)

lemma add_row_known:
  assumes g: "grouped tbls seen" and known: "table_name r \<in> table_name ` set seen"
  shows "\<exists>tbls'. add_row tbls r = Inr tbls' \<and> grouped tbls' (seen @ [r])"
proof -
  let ?t = "table_name r"
  let ?new = "push_column tbls ?t (column_of r)"
  have look: "map_of tbls ?t = Some (map column_of (rows_of seen ?t))"
    using g known by (simp add: grouped_def)
  have res: "add_row tbls r = Inr ?new"
    using look by (simp add: add_row_def)
  have dist: "distinct (map fst ?new)"
    using g by (simp add: push_column_keys grouped_def)
  have "map_of ?new k =
          (if k \<in> table_name ` set (seen @ [r])
           then Some (map column_of (rows_of (seen @ [r]) k)) else None)" for k
  proof (cases "k = ?t")
    case True
    then show ?thesis
      using push_column_hit [OF look, of "column_of r"] by (simp add: rows_of_snoc)
  next
    case False
    have "map_of ?new k = map_of tbls k"
      using False by (rule push_column_other)
    also have "\<dots> = (if k \<in> table_name ` set seen
                      then Some (map column_of (rows_of seen k)) else None)"
      using g by (simp add: grouped_def)
    finally show ?thesis
      using False by (auto simp: rows_of_snoc)
  qed
  with dist have "grouped ?new (seen @ [r])"
    unfolding grouped_def by blast
  with res show ?thesis by blast
qed

lemma add_row_fresh:
  assumes g: "grouped tbls seen" and fresh: "table_name r \<notin> table_name ` set seen"
    and own: "table_name r \<notin> set Object_prototype_keys"
  shows "\<exists>tbls'. add_row tbls r = Inr tbls' \<and> grouped tbls' (seen @ [r])"
proof -
  let ?t = "table_name r"
  let ?ext = "tbls @ [(?t, [])]"
  let ?new = "push_column ?ext ?t (column_of r)"
  have none: "map_of tbls ?t = None"
    using g fresh by (simp add: grouped_def)
  have res: "add_row tbls r = Inr ?new"
    using none own by (simp add: add_row_def)
  have nokey: "?t \<notin> set (map fst tbls)"
    using grouped_keys [OF g] fresh by simp
  have dist: "distinct (map fst ?new)"
    using g nokey by (simp add: push_column_keys grouped_def)
  have ext_look: "map_of ?ext ?t = Some []"
    using none by (simp add: map_add_def)
  have "map_of ?new k =
          (if k \<in> table_name ` set (seen @ [r])
           then Some (map column_of (rows_of (seen @ [r]) k)) else None)" for k
  proof (cases "k = ?t")
    case True
    then show ?thesis
      using push_column_hit [OF ext_look, of "column_of r"] rows_of_unseen [OF fresh]
      by (simp add: rows_of_snoc)
  next
    case False
    have "map_of ?new k = map_of ?ext k"
      using False by (rule push_column_other)
    also have "\<dots> = map_of tbls k"
      using False by (simp add: map_add_def split: option.splits)
    also have "\<dots> = (if k \<in> table_name ` set seen
                      then Some (map column_of (rows_of seen k)) else None)"
      using g by (simp add: grouped_def)
    finally show ?thesis
      using False by (auto simp: rows_of_snoc)
  qed
  with dist have "grouped ?new (seen @ [r])"
    unfolding grouped_def by blast
  with res show ?thesis by blast
qed

lemma forEach_row_grouped:
  "grouped tbls seen \<Longrightarrow> \<forall>r \<in> set rows. table_name r \<notin> set Object_prototype_keys \<Longrightarrow>
   \<exists>tbls'. forEach_row tbls rows = Inr tbls' \<and> grouped tbls' (seen @ rows)"
proof (induction rows arbitrary: tbls seen)
  case Nil
  then show ?case by simp
next
  case (Cons r rows)
  obtain mid where mid: "add_row tbls r = Inr mid" "grouped mid (seen @ [r])"
    using add_row_known [of tbls seen r] add_row_fresh [of tbls seen r] Cons.prems
    by (cases "table_name r \<in> table_name ` set seen") auto
  obtain fin where "forEach_row mid rows = Inr fin" "grouped fin ((seen @ [r]) @ rows)"
    using Cons.IH [OF mid(2)] Cons.prems(2) by auto
  with mid(1) show ?case by simp
qed

lemma schema_query_tables:
  "r \<in> set (schema_query catalog) \<Longrightarrow> table_name r \<in> set inspected_tables"
  by (auto simp: schema_query_def select_row_def)

lemma inspected_not_inherited:
  "t \<in> set inspected_tables \<Longrightarrow> t \<notin> set Object_prototype_keys"
  by (auto simp: inspected_tables_def Object_prototype_keys_def)

text \<open>
  Claim C9. For every catalog, when the query succeeds the handler answers 200 with a
  \<^verbatim>\<open>tables\<close> object whose keys are distinct, are the tables of the returned rows, and are
  among \<^verbatim>\<open>users\<close> and \<^verbatim>\<open>tenants\<close>; each table holds the columns of its rows in the order
  of the result, a column being the row's name and type with \<^verbatim>\<open>nullable\<close> true exactly
  when \<^verbatim>\<open>is_nullable\<close> is \<^verbatim>\<open>YES\<close>. When the query fails the handler prints the error and
  answers 500.
\<close>

theorem schema_endpoint:
  "(\<exists>tbls. schema_handler (Inr (schema_query catalog)) =
             ([], \<lparr> status_code = 200, body = TablesBody tbls \<rparr>)
      \<and> distinct (map fst tbls)
      \<and> set (map fst tbls) \<subseteq> {''users'', ''tenants''}
      \<and> set (map fst tbls) = table_name ` set (schema_query catalog)
      \<and> (\<forall>(t, cols) \<in> set tbls.
            cols = map column_of (rows_of (schema_query catalog) t)))
   \<and> name (column_of r) = column_name r
   \<and> type (column_of r) = data_type r
   \<and> nullable (column_of r) = (is_nullable r = ''YES'')
   \<and> schema_handler (Inl error) =
       ([ConsoleErrorWith ''Schema query error:'' error],
        \<lparr> status_code = 500, body = ErrorBody ''Failed to fetch schema'' \<rparr>)"
proof -
  let ?rows = "schema_query catalog"
  have ok: "\<forall>r \<in> set ?rows. table_name r \<notin> set Object_prototype_keys"
    using schema_query_tables inspected_not_inherited by blast
  have "grouped [] []"
    by (simp add: grouped_def)
  from forEach_row_grouped [OF this ok]
  obtain tbls where run: "forEach_row [] ?rows = Inr tbls" and g: "grouped tbls ?rows"
    by auto
  have resp: "schema_handler (Inr ?rows) = ([], \<lparr> status_code = 200, body = TablesBody tbls \<rparr>)"
    using run by (simp add: schema_handler_def)
  have d: "distinct (map fst tbls)"
    using g by (simp add: grouped_def)
  have k: "set (map fst tbls) = table_name ` set ?rows"
    using g by (rule grouped_keys)
  have sub: "set (map fst tbls) \<subseteq> {''users'', ''tenants''}"
    using k schema_query_tables [of _ catalog] by (auto simp: inspected_tables_def)
  have cols: "\<forall>(t, cols) \<in> set tbls. cols = map column_of (rows_of ?rows t)"
  proof (clarify)
    fix t cols assume m: "(t, cols) \<in> set tbls"
    then have look: "map_of tbls t = Some cols"
      using d by simp
    have "map_of tbls t = (if t \<in> table_name ` set ?rows
                           then Some (map column_of (rows_of ?rows t)) else None)"
      using g by (simp add: grouped_def)
    with look show "cols = map column_of (rows_of ?rows t)"
      by (simp split: if_splits)
  qed
  from resp d sub k cols show ?thesis
    by (auto simp: column_of_def schema_handler_def)
qed

theorem schema_endpoint_witness:
  "schema_handler (Inr (schema_query sample_catalog)) =
     ([], \<lparr> status_code = 200,
            body = TablesBody
              [(''tenants'', [\<lparr> name = ''name'', type = ''text'', nullable = False \<rparr>]),
               (''users'', [\<lparr> name = ''id'', type = ''uuid'', nullable = False \<rparr>,
                            \<lparr> name = ''email'', type = ''text'', nullable = True \<rparr>])] \<rparr>)
   \<and> (\<exists>tbls. schema_handler (Inr (schema_query sample_catalog)) =
             ([], \<lparr> status_code = 200, body = TablesBody tbls \<rparr>)
        \<and> (''users'', map column_of (rows_of (schema_query sample_catalog) ''users'')) \<in> set tbls
        \<and> set (map fst tbls) \<subseteq> {''users'', ''tenants''})"
proof -
  have ev: "schema_handler (Inr (schema_query sample_catalog)) =
     ([], \<lparr> status_code = 200,
            body = TablesBody
              [(''tenants'', [\<lparr> name = ''name'', type = ''text'', nullable = False \<rparr>]),
               (''users'', [\<lparr> name = ''id'', type = ''uuid'', nullable = False \<rparr>,
                            \<lparr> name = ''email'', type = ''text'', nullable = True \<rparr>])] \<rparr>)"
    by code_simp
  obtain tbls where t:
      "schema_handler (Inr (schema_query sample_catalog)) =
         ([], \<lparr> status_code = 200, body = TablesBody tbls \<rparr>)"
      "set (map fst tbls) \<subseteq> {''users'', ''tenants''}"
      "\<forall>(t, cols) \<in> set tbls. cols = map column_of (rows_of (schema_query sample_catalog) t)"
    using schema_endpoint [of sample_catalog] by blast
  from ev t(1) have "(''users'', [\<lparr> name = ''id'', type = ''uuid'', nullable = False \<rparr>,
                            \<lparr> name = ''email'', type = ''text'', nullable = True \<rparr>]) \<in> set tbls"
    by simp
  with t(3) have "(''users'', map column_of (rows_of (schema_query sample_catalog) ''users'')) \<in> set tbls"
    by fastforce
  with ev t(1,2) show ?thesis by blast
qed

end
